theory Spec2Isabelle
  imports Main
begin

section \<open>Errors and identities\<close>

text \<open>
  The middleware and the service signal failure by throwing \<^verbatim>\<open>AppError(message,
  statusCode, code?)\<close>; the store client rejects a query whose arguments are out of range.
  Both are values of one error type here, and every operation that can throw returns
  \<open>Err + 'a\<close>, with \<open>Inl\<close> for the thrown error.
\<close>

datatype ErrorCode = UNAUTHORIZED | INVALID_TOKEN | FORBIDDEN

datatype Err =
    AppError string nat "ErrorCode option"
  | PrismaClientValidationError

fun statusCode :: "Err \<Rightarrow> nat option" where
  "statusCode (AppError m s c) = Some s"
| "statusCode PrismaClientValidationError = None"

datatype UserRole = OWNER | ADMIN | USER

record JwtPayload =
  userId :: string
  companyId :: string
  role :: UserRole

section \<open>Requests and the middleware of \<^verbatim>\<open>authMiddleware\<close>\<close>

text \<open>
  Of an Express request the code reads the method, the \<^verbatim>\<open>authorization\<close> header, the
  route parameter \<^verbatim>\<open>id\<close> and the identity that \<^verbatim>\<open>requireAuth\<close> attaches
  (\<^verbatim>\<open>req.user\<close>, absent until then). The field \<open>http_method\<close> is
  \<^verbatim>\<open>req.method\<close>.
\<close>

record Request =
  http_method :: string
  authorization :: "string option"
  params_id :: string
  user :: "JwtPayload option"

text \<open>\<^verbatim>\<open>String.prototype.startsWith\<close> and \<^verbatim>\<open>String.prototype.split(" ")\<close>.\<close>

fun startsWith :: "string \<Rightarrow> string \<Rightarrow> bool" where
  "startsWith s [] = True"
| "startsWith [] (p # ps) = False"
| "startsWith (c # cs) (p # ps) = (c = p \<and> startsWith cs ps)"

fun split_space :: "string \<Rightarrow> string list" where
  "split_space [] = [[]]"
| "split_space (c # cs) =
     (if c = CHR '' '' then [] # split_space cs
      else (case split_space cs of
              [] \<Rightarrow> [[c]]
            | w # ws \<Rightarrow> (c # w) # ws))"

text \<open>
  \<^verbatim>\<open>authHeader?.startsWith("Bearer ") ? authHeader.split(" ")[1] : null\<close>: the token is
  the segment between the first and the second space. \<open>None\<close> stands for both
  \<^verbatim>\<open>null\<close> and \<^verbatim>\<open>undefined\<close>.
\<close>

definition bearerToken :: "string option \<Rightarrow> string option" where
  "bearerToken authHeader =
     (case authHeader of
        None \<Rightarrow> None
      | Some h \<Rightarrow>
          if startsWith h ''Bearer ''
          then (case split_space h of
                  _ # t # _ \<Rightarrow> Some t
                | _ \<Rightarrow> None)
          else None)"

text \<open>
  \<^verbatim>\<open>requireAuth\<close>. The token codec \<^verbatim>\<open>jwt.verify(token, secret)\<close> is a library call:
  it is the parameter \<open>verify\<close>, \<open>None\<close> when it throws. A missing or empty token
  throws inside the \<^verbatim>\<open>try\<close>, so it reaches the same \<^verbatim>\<open>catch\<close> as a token that
  fails verification: \<^verbatim>\<open>next(err)\<close> with the 401 error is \<open>Inl\<close>, \<^verbatim>\<open>next()\<close> is
  \<open>Inr\<close> of the request with the identity attached. The warnings the middleware writes
  to the logger are not part of the model.
\<close>

definition requireAuth ::
    "(string \<Rightarrow> string \<Rightarrow> JwtPayload option) \<Rightarrow> string \<Rightarrow> Request \<Rightarrow> Err + Request" where
  "requireAuth verify JWT_SECRET req =
     (let unauthorized =
            Inl (AppError ''Unauthorized - Invalid or expired token'' 401 (Some INVALID_TOKEN))
      in case bearerToken (authorization req) of
           None \<Rightarrow> unauthorized
         | Some token \<Rightarrow>
             if token = [] then unauthorized
             else (case verify token JWT_SECRET of
                     None \<Rightarrow> unauthorized
                   | Some decoded \<Rightarrow>
                       Inr (req\<lparr>user := Some \<lparr>userId = userId decoded,
                                               companyId = companyId decoded,
                                               role = role decoded\<rparr>\<rparr>)))"

text \<open>\<^verbatim>\<open>requireRole(roles)\<close>: \<^verbatim>\<open>roles.includes(req.user.role)\<close> is list membership.\<close>

definition requireRole :: "UserRole list \<Rightarrow> Request \<Rightarrow> Err + Request" where
  "requireRole roles req =
     (case user req of
        None \<Rightarrow> Inl (AppError ''Unauthorized'' 401 (Some UNAUTHORIZED))
      | Some u \<Rightarrow>
          if role u \<notin> set roles
          then Inl (AppError ''Forbidden - Insufficient permissions'' 403 (Some FORBIDDEN))
          else Inr req)"

section \<open>The cache advisory middleware of \<^verbatim>\<open>cacheMiddleware\<close>\<close>

text \<open>
  The response is the map of its headers; \<^verbatim>\<open>res.set(name, value)\<close> stores one. The
  duration is a JavaScript number written into a template string: an integer here, printed in
  decimal as \<^verbatim>\<open>`${duration}`\<close> prints it.
\<close>

type_synonym Response = "string \<rightharpoonup> string"

record CacheOptions =
  duration :: "int option"

definition digit_char :: "nat \<Rightarrow> char" where
  "digit_char d = char_of (48 + d)"

fun nat_to_string :: "nat \<Rightarrow> string" where
  "nat_to_string n =
     (if n < 10 then [digit_char n]
      else nat_to_string (n div 10) @ [digit_char (n mod 10)])"

definition number_to_string :: "int \<Rightarrow> string" where
  "number_to_string i =
     (if i < 0 then CHR ''-'' # nat_to_string (nat (- i)) else nat_to_string (nat i))"

text \<open>
  \<^verbatim>\<open>cache(options)\<close>. \<^verbatim>\<open>ENV.NODE_ENV\<close> comes from the configuration and is a
  parameter. On every path the middleware ends with \<^verbatim>\<open>next()\<close>, so its whole effect is
  the new header map.
\<close>

definition cache :: "CacheOptions \<Rightarrow> string \<Rightarrow> Request \<Rightarrow> Response \<Rightarrow> Response" where
  "cache options NODE_ENV req res =
     (let d = (case duration options of None \<Rightarrow> 300 | Some n \<Rightarrow> n)
      in if http_method req \<noteq> ''GET'' then res(''Cache-Control'' \<mapsto> ''no-store'')
         else if NODE_ENV \<noteq> ''production'' then res(''Cache-Control'' \<mapsto> ''no-store'')
         else res(''Cache-Control'' \<mapsto> ''private, max-age='' @ number_to_string d,
                  ''Vary'' \<mapsto> ''Authorization''))"

section \<open>The users router\<close>

text \<open>
  A middleware receives the request and the response and either passes them on
  (\<^verbatim>\<open>next()\<close>, \<open>Inr\<close>) or ends the chain with an error (\<^verbatim>\<open>next(err)\<close>, \<open>Inl\<close>);
  after an error no later middleware of the chain runs. The controllers and
  \<^verbatim>\<open>validateRequest(schema)\<close> are defined outside these files: they are the fields of
  \<open>Handlers\<close>, arbitrary middleware.
\<close>

record Ctx =
  request :: Request
  response :: Response

type_synonym Middleware = "Ctx \<Rightarrow> Err + Ctx"

fun runChain :: "Middleware list \<Rightarrow> Ctx \<Rightarrow> Err + Ctx" where
  "runChain [] ctx = Inr ctx"
| "runChain (m # ms) ctx =
     (case m ctx of
        Inl err \<Rightarrow> Inl err
      | Inr ctx' \<Rightarrow> runChain ms ctx')"

definition onRequest :: "(Request \<Rightarrow> Err + Request) \<Rightarrow> Middleware" where
  "onRequest f ctx =
     (case f (request ctx) of
        Inl err \<Rightarrow> Inl err
      | Inr req' \<Rightarrow> Inr (ctx\<lparr>request := req'\<rparr>))"

definition onResponse :: "(Request \<Rightarrow> Response \<Rightarrow> Response) \<Rightarrow> Middleware" where
  "onResponse f ctx = Inr (ctx\<lparr>response := f (request ctx) (response ctx)\<rparr>)"

record Env =
  NODE_ENV :: string
  JWT_SECRET :: string

record Handlers =
  verify :: "string \<Rightarrow> string \<Rightarrow> JwtPayload option"
  validateCreate :: Middleware
  validateUpdate :: Middleware
  getAll :: Middleware
  getUser :: Middleware
  create :: Middleware
  update :: Middleware
  delete :: Middleware

datatype Route = GET_root | GET_id | POST_root | PATCH_id | DELETE_id

text \<open>
  The routes as the router declares them, each after \<^verbatim>\<open>router.use(requireAuth)\<close>.
\<close>

fun routeChain :: "Env \<Rightarrow> Handlers \<Rightarrow> Route \<Rightarrow> Middleware list" where
  "routeChain env h GET_root =
     [onRequest (requireRole [ADMIN, OWNER]),
      onResponse (cache \<lparr>duration = Some 300\<rparr> (NODE_ENV env)),
      getAll h]"
| "routeChain env h GET_id =
     [onResponse (cache \<lparr>duration = Some 300\<rparr> (NODE_ENV env)),
      getUser h]"
| "routeChain env h POST_root =
     [onRequest (requireRole [ADMIN, OWNER]),
      validateCreate h,
      create h]"
| "routeChain env h PATCH_id =
     [onRequest (requireRole [ADMIN, OWNER]),
      validateUpdate h,
      update h]"
| "routeChain env h DELETE_id =
     [onRequest (requireRole [OWNER]),
      delete h]"

definition usersRouter :: "Env \<Rightarrow> Handlers \<Rightarrow> Route \<Rightarrow> Ctx \<Rightarrow> Err + Ctx" where
  "usersRouter env h r ctx =
     runChain (onRequest (requireAuth (verify h) (JWT_SECRET env)) # routeChain env h r) ctx"

section \<open>The user store\<close>

text \<open>
  A row of the \<^verbatim>\<open>user\<close> table, and the record that the service's
  \<^verbatim>\<open>select\<close> clause (\<^verbatim>\<open>id, name, email, role, createdAt, updatedAt\<close>) returns.
  The table is the list of its rows in the store's order.
\<close>

record User =
  u_id :: string
  u_name :: string
  u_email :: string
  u_password :: string
  u_role :: UserRole
  u_companyId :: string
  u_createdAt :: nat
  u_updatedAt :: nat

record UserView =
  v_id :: string
  v_name :: string
  v_email :: string
  v_role :: UserRole
  v_createdAt :: nat
  v_updatedAt :: nat

definition select_fields :: "User \<Rightarrow> UserView" where
  "select_fields u =
     \<lparr>v_id = u_id u, v_name = u_name u, v_email = u_email u, v_role = u_role u,
      v_createdAt = u_createdAt u, v_updatedAt = u_updatedAt u\<rparr>"

text \<open>
  The \<^verbatim>\<open>where\<close> objects the service builds have the keys \<^verbatim>\<open>id\<close> and
  \<^verbatim>\<open>companyId\<close>; an absent key puts no condition on the row.
\<close>

record UserWhere =
  w_id :: "string option"
  w_companyId :: "string option"

definition matches :: "UserWhere \<Rightarrow> User \<Rightarrow> bool" where
  "matches w u =
     ((case w_id w of None \<Rightarrow> True | Some i \<Rightarrow> u_id u = i) \<and>
      (case w_companyId w of None \<Rightarrow> True | Some c \<Rightarrow> u_companyId u = c))"

text \<open>
  The service's parameter types give a created or updated role the two values
  \<^verbatim>\<open>"ADMIN" | "USER"\<close>.
\<close>

datatype AdminOrUser = Role_ADMIN | Role_USER

fun toUserRole :: "AdminOrUser \<Rightarrow> UserRole" where
  "toUserRole Role_ADMIN = ADMIN"
| "toUserRole Role_USER = USER"

record UserUpdate =
  d_name :: "string option"
  d_email :: "string option"
  d_role :: "AdminOrUser option"

record UserCreate =
  c_name :: string
  c_email :: string
  c_password :: string
  c_role :: "AdminOrUser option"
  c_companyId :: string

text \<open>
  The database is the table together with the calls the client has received, in order, so
  that a statement about the queries an operation issues is a statement about this log.
\<close>

datatype PrismaCall =
    FindMany UserWhere int int
  | FindFirst UserWhere
  | UpdateMany UserWhere UserUpdate
  | DeleteMany UserWhere
  | Create UserCreate

record Db =
  rows :: "User list"
  calls :: "PrismaCall list"

definition logCall :: "PrismaCall \<Rightarrow> Db \<Rightarrow> Db" where
  "logCall q db = db\<lparr>calls := calls db @ [q]\<rparr>"

record BatchPayload =
  count :: nat

text \<open>
  The Prisma client calls the service makes, after the client's documentation.
  \<^verbatim>\<open>findMany\<close> rejects a negative \<^verbatim>\<open>skip\<close>; a negative \<^verbatim>\<open>take\<close> reads from the
  end of the matching rows. \<^verbatim>\<open>updateMany\<close> and \<^verbatim>\<open>deleteMany\<close> never fail for want
  of a matching row: they report the number of rows they matched. The constraints and
  attributes of the schema (unique columns, automatic timestamps on update) are not part
  of these files and are not modelled: the calls are those the store accepts.
\<close>

definition findMany ::
    "UserWhere \<Rightarrow> int \<Rightarrow> int \<Rightarrow> (User \<Rightarrow> 'a) \<Rightarrow> Db \<Rightarrow> (Err + 'a list) \<times> Db" where
  "findMany w tk sk sel db =
     (let found = filter (matches w) (rows db);
          db' = logCall (FindMany w tk sk) db
      in if sk < 0 then (Inl PrismaClientValidationError, db')
         else if 0 \<le> tk then (Inr (map sel (take (nat tk) (drop (nat sk) found))), db')
         else (Inr (map sel (rev (take (nat (- tk)) (drop (nat sk) (rev found))))), db'))"

definition findFirst :: "UserWhere \<Rightarrow> (User \<Rightarrow> 'a) \<Rightarrow> Db \<Rightarrow> 'a option \<times> Db" where
  "findFirst w sel db =
     (case filter (matches w) (rows db) of
        [] \<Rightarrow> (None, logCall (FindFirst w) db)
      | u # _ \<Rightarrow> (Some (sel u), logCall (FindFirst w) db))"

definition applyUpdate :: "UserUpdate \<Rightarrow> User \<Rightarrow> User" where
  "applyUpdate d u =
     u\<lparr>u_name := (case d_name d of None \<Rightarrow> u_name u | Some n \<Rightarrow> n),
       u_email := (case d_email d of None \<Rightarrow> u_email u | Some e \<Rightarrow> e),
       u_role := (case d_role d of None \<Rightarrow> u_role u | Some r \<Rightarrow> toUserRole r)\<rparr>"

definition updateMany :: "UserWhere \<Rightarrow> UserUpdate \<Rightarrow> Db \<Rightarrow> BatchPayload \<times> Db" where
  "updateMany w d db =
     (\<lparr>count = length (filter (matches w) (rows db))\<rparr>,
      logCall (UpdateMany w d)
        (db\<lparr>rows := map (\<lambda>u. if matches w u then applyUpdate d u else u) (rows db)\<rparr>))"

definition deleteMany :: "UserWhere \<Rightarrow> Db \<Rightarrow> BatchPayload \<times> Db" where
  "deleteMany w db =
     (\<lparr>count = length (filter (matches w) (rows db))\<rparr>,
      logCall (DeleteMany w) (db\<lparr>rows := filter (\<lambda>u. \<not> matches w u) (rows db)\<rparr>))"

text \<open>
  Modelled from the spec: the schema of the \<^verbatim>\<open>user\<close> table is not among these files;
  the default it gives the \<^verbatim>\<open>role\<close> column is taken from the specification ("role
  defaults to USER if omitted").
\<close>

definition schema_default_role :: UserRole where
  "schema_default_role = USER"

text \<open>
  \<^verbatim>\<open>create\<close> appends one row. The values the store generates for it, the id and the
  time of creation, are the parameter \<open>gen\<close>.
\<close>

record Generated =
  g_id :: string
  g_now :: nat

definition create_row ::
    "Generated \<Rightarrow> UserCreate \<Rightarrow> (User \<Rightarrow> 'a) \<Rightarrow> Db \<Rightarrow> 'a \<times> Db" where
  "create_row gen d sel db =
     (let u = \<lparr>u_id = g_id gen, u_name = c_name d, u_email = c_email d,
               u_password = c_password d,
               u_role = (case c_role d of None \<Rightarrow> schema_default_role | Some r \<Rightarrow> toUserRole r),
               u_companyId = c_companyId d,
               u_createdAt = g_now gen, u_updatedAt = g_now gen\<rparr>
      in (sel u, logCall (Create d) (db\<lparr>rows := rows db @ [u]\<rparr>)))"

section \<open>\<^verbatim>\<open>UserService\<close>\<close>

text \<open>
  Each method takes the database and returns what the promise settles to (\<open>Inl\<close> when it
  rejects) with the database afterwards. \<^verbatim>\<open>page\<close> and \<^verbatim>\<open>limit\<close> are integers.
\<close>

definition getAllUsers ::
    "string \<Rightarrow> int \<Rightarrow> int \<Rightarrow> Db \<Rightarrow> (Err + UserView list) \<times> Db" where
  "getAllUsers cid page limit db =
     (let skip = (page - 1) * limit
      in findMany \<lparr>w_id = None, w_companyId = Some cid\<rparr> limit skip select_fields db)"

definition getUserById :: "string \<Rightarrow> string \<Rightarrow> Db \<Rightarrow> (Err + UserView) \<times> Db" where
  "getUserById cid i db =
     (case findFirst \<lparr>w_id = Some i, w_companyId = Some cid\<rparr> select_fields db of
        (None, db') \<Rightarrow> (Inl (AppError ''User not found'' 404 None), db')
      | (Some u, db') \<Rightarrow> (Inr u, db'))"

definition updateUser ::
    "string \<Rightarrow> string \<Rightarrow> UserUpdate \<Rightarrow> Db \<Rightarrow> (Err + BatchPayload) \<times> Db" where
  "updateUser cid i d db =
     (case updateMany \<lparr>w_id = Some i, w_companyId = Some cid\<rparr> d db of
        (result, db') \<Rightarrow> (Inr result, db'))"

definition deleteUser :: "string \<Rightarrow> string \<Rightarrow> Db \<Rightarrow> (Err + unit) \<times> Db" where
  "deleteUser cid i db =
     (case deleteMany \<lparr>w_id = Some i, w_companyId = Some cid\<rparr> db of
        (result, db') \<Rightarrow>
          if count result = 0 then (Inl (AppError ''User not found'' 404 None), db')
          else (Inr (), db'))"

definition createUser ::
    "Generated \<Rightarrow> UserCreate \<Rightarrow> Db \<Rightarrow> (Err + UserView) \<times> Db" where
  "createUser gen d db =
     (case create_row gen d select_fields db of
        (u, db') \<Rightarrow> (Inr u, db'))"

section \<open>Sequences of service calls\<close>

text \<open>
  A client of the service calls its methods one after another on the same database; a
  call that rejects leaves the database as the store left it.
\<close>

datatype ServiceCall =
    GetAllUsers string int int
  | GetUserById string string
  | UpdateUser string string UserUpdate
  | DeleteUser string string
  | CreateUser Generated UserCreate

fun perform :: "ServiceCall \<Rightarrow> Db \<Rightarrow> Db" where
  "perform (GetAllUsers cid page limit) db = snd (getAllUsers cid page limit db)"
| "perform (GetUserById cid i) db = snd (getUserById cid i db)"
| "perform (UpdateUser cid i d) db = snd (updateUser cid i d db)"
| "perform (DeleteUser cid i) db = snd (deleteUser cid i db)"
| "perform (CreateUser gen d) db = snd (createUser gen d db)"

fun performAll :: "ServiceCall list \<Rightarrow> Db \<Rightarrow> Db" where
  "performAll [] db = db"
| "performAll (x # xs) db = performAll xs (perform x db)"

text \<open>The ids of the users of a company whose role is \<open>OWNER\<close>.\<close>

definition owners :: "string \<Rightarrow> Db \<Rightarrow> string set" where
  "owners cid db = set (map u_id (filter (\<lambda>u. u_companyId u = cid \<and> u_role u = OWNER) (rows db)))"

section \<open>Example data\<close>

text \<open>
  Company \<open>A\<close> has the owner \<open>o1\<close> and the user \<open>u1\<close>; company \<open>B\<close> has the user
  \<open>b1\<close>. The token codec of the examples accepts the token \<open>t-u1\<close> as \<open>u1\<close>'s and the
  token \<open>t-o1\<close> as \<open>o1\<close>'s.
\<close>

definition user_o1 :: User where
  "user_o1 = \<lparr>u_id = ''o1'', u_name = ''Olga'', u_email = ''olga@a.com'', u_password = ''hash-o1'',
              u_role = OWNER, u_companyId = ''A'', u_createdAt = 1, u_updatedAt = 1\<rparr>"

definition user_u1 :: User where
  "user_u1 = \<lparr>u_id = ''u1'', u_name = ''Uma'', u_email = ''uma@a.com'', u_password = ''hash-u1'',
              u_role = USER, u_companyId = ''A'', u_createdAt = 2, u_updatedAt = 2\<rparr>"

definition user_b1 :: User where
  "user_b1 = \<lparr>u_id = ''b1'', u_name = ''Ben'', u_email = ''ben@b.com'', u_password = ''hash-b1'',
              u_role = ADMIN, u_companyId = ''B'', u_createdAt = 3, u_updatedAt = 3\<rparr>"

definition example_db :: Db where
  "example_db = \<lparr>rows = [user_o1, user_b1, user_u1], calls = []\<rparr>"

definition example_verify :: "string \<Rightarrow> string \<Rightarrow> JwtPayload option" where
  "example_verify token secret =
     (if token = ''t-u1'' then Some \<lparr>userId = ''u1'', companyId = ''A'', role = USER\<rparr>
      else if token = ''t-o1'' then Some \<lparr>userId = ''o1'', companyId = ''A'', role = OWNER\<rparr>
      else None)"


definition example_request :: "string \<Rightarrow> string option \<Rightarrow> string \<Rightarrow> Request" where
  "example_request m auth i = \<lparr>http_method = m, authorization = auth, params_id = i, user = None\<rparr>"



section \<open>Facts about the store and the string functions\<close>






lemma matches_scoped [simp]:
  "matches \<lparr>w_id = Some i, w_companyId = Some c\<rparr> u \<longleftrightarrow> u_id u = i \<and> u_companyId u = c"
  "matches \<lparr>w_id = None, w_companyId = Some c\<rparr> u \<longleftrightarrow> u_companyId u = c"
  by (simp_all add: matches_def)

lemma applyUpdate_keeps [simp]:
  "u_companyId (applyUpdate d u) = u_companyId u"
  "u_id (applyUpdate d u) = u_id u"
  "u_password (applyUpdate d u) = u_password u"
  by (simp_all add: applyUpdate_def)

lemma filter_map_other:
  "(\<And>u. P (f u) = P u) \<Longrightarrow> (\<And>u. P u \<Longrightarrow> f u = u) \<Longrightarrow> filter P (map f xs) = filter P xs"
  by (induction xs) auto


lemma findMany_rows:
  assumes "fst (findMany w tk sk sel db) = Inr vs"
  shows "\<exists>us. vs = map sel us \<and> set us \<subseteq> {u \<in> set (rows db). matches w u}"
proof (cases "0 \<le> tk")
  case True
  let ?us = "take (nat tk) (drop (nat sk) (filter (matches w) (rows db)))"
  from assms True have "vs = map sel ?us"
    by (simp add: findMany_def Let_def split: if_splits)
  moreover have "set ?us \<subseteq> {u \<in> set (rows db). matches w u}"
    by (auto dest!: in_set_takeD in_set_dropD)
  ultimately show ?thesis by blast
next
  case False
  let ?us = "rev (take (nat (- tk)) (drop (nat sk) (rev (filter (matches w) (rows db)))))"
  from assms False have "vs = map sel ?us"
    by (simp add: findMany_def Let_def split: if_splits)
  moreover have "set ?us \<subseteq> {u \<in> set (rows db). matches w u}"
    by (auto dest!: in_set_takeD in_set_dropD)
  ultimately show ?thesis by blast
qed

lemma getAllUsers_scoped:
  assumes "fst (getAllUsers c page limit db) = Inr vs" "v \<in> set vs"
  shows "\<exists>u \<in> set (rows db). u_companyId u = c \<and> v = select_fields u"
proof -
  from assms(1) obtain us where
    "vs = map select_fields us"
    "set us \<subseteq> {u \<in> set (rows db). matches \<lparr>w_id = None, w_companyId = Some c\<rparr> u}"
    unfolding getAllUsers_def Let_def using findMany_rows by blast
  with assms(2) show ?thesis by auto
qed

lemma getAllUsers_db:
  "snd (getAllUsers c page limit db) =
     db\<lparr>calls := calls db @ [FindMany \<lparr>w_id = None, w_companyId = Some c\<rparr> limit ((page - 1) * limit)]\<rparr>"
  by (simp add: getAllUsers_def findMany_def Let_def logCall_def)

lemma getUserById_scoped:
  assumes "fst (getUserById c i db) = Inr v"
  shows "\<exists>u \<in> set (rows db). u_companyId u = c \<and> u_id u = i \<and> v = select_fields u"
proof (cases "filter (matches \<lparr>w_id = Some i, w_companyId = Some c\<rparr>) (rows db)")
  case Nil
  with assms show ?thesis by (simp add: getUserById_def findFirst_def)
next
  case (Cons u us)
  then have "u \<in> set (filter (matches \<lparr>w_id = Some i, w_companyId = Some c\<rparr>) (rows db))"
    by simp
  moreover from Cons assms have "v = select_fields u"
    by (simp add: getUserById_def findFirst_def)
  ultimately show ?thesis by auto
qed

lemma getUserById_db:
  "snd (getUserById c i db) =
     db\<lparr>calls := calls db @ [FindFirst \<lparr>w_id = Some i, w_companyId = Some c\<rparr>]\<rparr>"
  by (simp add: getUserById_def findFirst_def logCall_def split: list.splits)

lemma getUserById_missing:
  assumes "\<not> (\<exists>u \<in> set (rows db). u_id u = i \<and> u_companyId u = c)"
  shows "fst (getUserById c i db) = Inl (AppError ''User not found'' 404 None)"
proof -
  from assms have "filter (matches \<lparr>w_id = Some i, w_companyId = Some c\<rparr>) (rows db) = []"
    by (auto simp: filter_empty_conv)
  then show ?thesis by (simp add: getUserById_def findFirst_def)
qed

lemma getUserById_error:
  "fst (getUserById c i db) = Inl e \<Longrightarrow> e = AppError ''User not found'' 404 None"
  by (auto simp: getUserById_def findFirst_def split: list.splits)

lemma updateUser_db:
  "snd (updateUser c i d db) =
     \<lparr>rows = map (\<lambda>u. if u_id u = i \<and> u_companyId u = c then applyUpdate d u else u) (rows db),
      calls = calls db @ [UpdateMany \<lparr>w_id = Some i, w_companyId = Some c\<rparr> d]\<rparr>"
  by (simp add: updateUser_def updateMany_def logCall_def)

lemma deleteUser_db:
  "snd (deleteUser c i db) =
     \<lparr>rows = filter (\<lambda>u. \<not> (u_id u = i \<and> u_companyId u = c)) (rows db),
      calls = calls db @ [DeleteMany \<lparr>w_id = Some i, w_companyId = Some c\<rparr>]\<rparr>"
  by (simp add: deleteUser_def deleteMany_def logCall_def)

lemma createUser_db:
  "snd (createUser gen d db) =
     \<lparr>rows = rows db @
        [\<lparr>u_id = g_id gen, u_name = c_name d, u_email = c_email d, u_password = c_password d,
          u_role = (case c_role d of None \<Rightarrow> schema_default_role | Some r \<Rightarrow> toUserRole r),
          u_companyId = c_companyId d, u_createdAt = g_now gen, u_updatedAt = g_now gen\<rparr>],
      calls = calls db @ [Create d]\<rparr>"
  by (simp add: createUser_def create_row_def logCall_def Let_def)

lemma updateUser_other:
  "c2 \<noteq> c \<Longrightarrow> filter (\<lambda>u. u_companyId u = c2) (rows (snd (updateUser c i d db)))
     = filter (\<lambda>u. u_companyId u = c2) (rows db)"
  by (simp add: updateUser_db filter_map_other)

lemma deleteUser_other:
  "c2 \<noteq> c \<Longrightarrow> filter (\<lambda>u. u_companyId u = c2) (rows (snd (deleteUser c i db)))
     = filter (\<lambda>u. u_companyId u = c2) (rows db)"
  by (auto simp add: deleteUser_db intro: filter_cong)







lemma toUserRole_not_OWNER: "toUserRole r \<noteq> OWNER"
  by (cases r) simp_all

lemma applyUpdate_OWNER: "u_role (applyUpdate d u) = OWNER \<Longrightarrow> u_role u = OWNER"
  by (simp add: applyUpdate_def toUserRole_not_OWNER split: option.splits)

lemma created_role_not_OWNER:
  "(case c_role d of None \<Rightarrow> schema_default_role | Some r \<Rightarrow> toUserRole r) \<noteq> OWNER"
  by (simp add: schema_default_role_def toUserRole_not_OWNER split: option.splits)

lemma owners_perform: "owners c (perform x db) \<subseteq> owners c db"
proof (cases x)
  case (GetAllUsers cid page limit)
  then show ?thesis by (simp add: owners_def getAllUsers_db)
next
  case (GetUserById cid i)
  then show ?thesis by (simp add: owners_def getUserById_db)
next
  case (UpdateUser cid i d)
  then show ?thesis
    by (auto simp: owners_def updateUser_db dest: applyUpdate_OWNER split: if_splits)
next
  case (DeleteUser cid i)
  then show ?thesis by (auto simp: owners_def deleteUser_db)
next
  case (CreateUser gen d)
  then show ?thesis
    using created_role_not_OWNER[of d] by (auto simp: owners_def createUser_db)
qed

lemma owners_performAll: "owners c (performAll xs db) \<subseteq> owners c db"
proof (induction xs arbitrary: db)
  case Nil
  show ?case by simp
next
  case (Cons x xs)
  have "owners c (performAll xs (perform x db)) \<subseteq> owners c (perform x db)"
    by (rule Cons.IH)
  also have "\<dots> \<subseteq> owners c db" by (rule owners_perform)
  finally show ?case by simp
qed





section \<open>Tenant isolation\<close>

text \<open>
  C1. A call of \<^verbatim>\<open>getAllUsers\<close>, \<^verbatim>\<open>getUserById\<close>, \<^verbatim>\<open>updateUser\<close> or
  \<^verbatim>\<open>deleteUser\<close> with company \<open>c1\<close> returns only selections of rows of \<open>c1\<close>, leaves
  the table as it was when it only reads, leaves the rows of every other company \<open>c2\<close> as
  they were when it writes, and issues exactly one store call, whose filter holds
  \<open>companyId = c1\<close>.
\<close>

theorem tenant_isolation:
  assumes "c2 \<noteq> c1"
  shows
    "(\<forall>vs. fst (getAllUsers c1 page limit db) = Inr vs \<longrightarrow>
        (\<forall>v \<in> set vs. \<exists>u \<in> set (rows db). u_companyId u = c1 \<and> u_companyId u \<noteq> c2
                                          \<and> v = select_fields u))
     \<and> (\<forall>v. fst (getUserById c1 i db) = Inr v \<longrightarrow>
        (\<exists>u \<in> set (rows db). u_companyId u = c1 \<and> u_companyId u \<noteq> c2 \<and> u_id u = i
                               \<and> v = select_fields u))
     \<and> rows (snd (getAllUsers c1 page limit db)) = rows db
     \<and> rows (snd (getUserById c1 i db)) = rows db
     \<and> filter (\<lambda>u. u_companyId u = c2) (rows (snd (updateUser c1 i d db)))
         = filter (\<lambda>u. u_companyId u = c2) (rows db)
     \<and> filter (\<lambda>u. u_companyId u = c2) (rows (snd (deleteUser c1 i db)))
         = filter (\<lambda>u. u_companyId u = c2) (rows db)
     \<and> calls (snd (getAllUsers c1 page limit db))
         = calls db @ [FindMany \<lparr>w_id = None, w_companyId = Some c1\<rparr> limit ((page - 1) * limit)]
     \<and> calls (snd (getUserById c1 i db))
         = calls db @ [FindFirst \<lparr>w_id = Some i, w_companyId = Some c1\<rparr>]
     \<and> calls (snd (updateUser c1 i d db))
         = calls db @ [UpdateMany \<lparr>w_id = Some i, w_companyId = Some c1\<rparr> d]
     \<and> calls (snd (deleteUser c1 i db))
         = calls db @ [DeleteMany \<lparr>w_id = Some i, w_companyId = Some c1\<rparr>]"
proof -
  have list: "\<forall>vs. fst (getAllUsers c1 page limit db) = Inr vs \<longrightarrow>
        (\<forall>v \<in> set vs. \<exists>u \<in> set (rows db). u_companyId u = c1 \<and> u_companyId u \<noteq> c2
                                          \<and> v = select_fields u)"
    using getAllUsers_scoped[of c1 page limit db] assms by blast
  have get: "\<forall>v. fst (getUserById c1 i db) = Inr v \<longrightarrow>
        (\<exists>u \<in> set (rows db). u_companyId u = c1 \<and> u_companyId u \<noteq> c2 \<and> u_id u = i
                               \<and> v = select_fields u)"
    using getUserById_scoped[of c1 i db] assms by blast
  have upd: "filter (\<lambda>u. u_companyId u = c2) (rows (snd (updateUser c1 i d db)))
         = filter (\<lambda>u. u_companyId u = c2) (rows db)"
    using assms by (rule updateUser_other)
  have del: "filter (\<lambda>u. u_companyId u = c2) (rows (snd (deleteUser c1 i db)))
         = filter (\<lambda>u. u_companyId u = c2) (rows db)"
    using assms by (rule deleteUser_other)
  show ?thesis
    using list get upd del
    by (simp only: getAllUsers_db getUserById_db updateUser_db deleteUser_db) simp
qed

theorem tenant_isolation_witness:
  "''B'' \<noteq> ''A''
   \<and> fst (getAllUsers ''A'' 1 10 example_db) = Inr [select_fields user_o1, select_fields user_u1]
   \<and> fst (getUserById ''A'' ''u1'' example_db) = Inr (select_fields user_u1)
   \<and> filter (\<lambda>u. u_companyId u = ''B'')
        (rows (snd (updateUser ''A'' ''b1'' \<lparr>d_name = Some ''x'', d_email = None, d_role = None\<rparr>
                      example_db))) = [user_b1]
   \<and> filter (\<lambda>u. u_companyId u = ''B'') (rows (snd (deleteUser ''A'' ''b1'' example_db))) = [user_b1]
   \<and> calls (snd (getUserById ''A'' ''b1'' example_db))
       = [FindFirst \<lparr>w_id = Some ''b1'', w_companyId = Some ''A''\<rparr>]"
proof -
  have reads:
    "fst (getAllUsers ''A'' 1 10 example_db) = Inr [select_fields user_o1, select_fields user_u1]
     \<and> fst (getUserById ''A'' ''u1'' example_db) = Inr (select_fields user_u1)"
    by (simp add: getAllUsers_def findMany_def getUserById_def findFirst_def
          example_db_def user_o1_def user_u1_def user_b1_def)
  show ?thesis
    using tenant_isolation[of "''B''" "''A''" 1 10 example_db "''b1''"
            "\<lparr>d_name = Some ''x'', d_email = None, d_role = None\<rparr>"] reads
    by (simp add: example_db_def user_o1_def user_u1_def user_b1_def)
qed

section \<open>The update route\<close>

text \<open>
  C2. The caller \<open>u1\<close>, whose role is \<open>USER\<close>, sends \<^verbatim>\<open>PATCH /users/u1\<close>, its own id,
  with a valid token. The route's \<^verbatim>\<open>requireRole(["ADMIN", "OWNER"])\<close> ends the chain with
  the 403 error before the validator and the controller run, whatever they are.
\<close>

theorem patch_own_profile_is_forbidden:
  "usersRouter env (h\<lparr>verify := example_verify\<rparr>) PATCH_id
     \<lparr>request = example_request ''PATCH'' (Some ''Bearer t-u1'') ''u1'', response = Map.empty\<rparr>
   = Inl (AppError ''Forbidden - Insufficient permissions'' 403 (Some FORBIDDEN))"
  by (simp add: usersRouter_def onRequest_def requireAuth_def requireRole_def bearerToken_def
        example_verify_def example_request_def)

section \<open>Updating a user that does not exist\<close>

text \<open>
  C3. No row of company \<open>A\<close> has the id \<open>b1\<close>. \<^verbatim>\<open>updateUser\<close> resolves with the
  store's payload \<open>count = 0\<close> and the table unchanged; it does not reject.
\<close>

theorem updateUser_no_match_resolves:
  "updateUser ''A'' ''b1'' \<lparr>d_name = Some ''New Name'', d_email = None, d_role = None\<rparr> example_db
     = (Inr \<lparr>count = 0\<rparr>,
        example_db\<lparr>calls := [UpdateMany \<lparr>w_id = Some ''b1'', w_companyId = Some ''A''\<rparr>
                                 \<lparr>d_name = Some ''New Name'', d_email = None, d_role = None\<rparr>]\<rparr>)"
  by (simp add: updateUser_def updateMany_def logCall_def example_db_def matches_def
        user_o1_def user_u1_def user_b1_def)

section \<open>Reading a user that does not exist\<close>

text \<open>
  C4. When no row has both the id and the company, \<^verbatim>\<open>getUserById\<close> rejects with
  \<^verbatim>\<open>AppError("User not found", 404)\<close>, also when a row of another company has the id;
  and 404 is the only error the method raises, so it never reports 403.
\<close>

theorem getUserById_not_found:
  "(\<not> (\<exists>u \<in> set (rows db). u_id u = i \<and> u_companyId u = c) \<longrightarrow>
      fst (getUserById c i db) = Inl (AppError ''User not found'' 404 None))
   \<and> ((\<exists>u \<in> set (rows db). u_id u = i \<and> u_companyId u \<noteq> c)
        \<and> \<not> (\<exists>u \<in> set (rows db). u_id u = i \<and> u_companyId u = c) \<longrightarrow>
      fst (getUserById c i db) = Inl (AppError ''User not found'' 404 None))
   \<and> (\<forall>e. fst (getUserById c i db) = Inl e \<longrightarrow> statusCode e = Some 404 \<and> statusCode e \<noteq> Some 403)"
proof -
  have "\<forall>e. fst (getUserById c i db) = Inl e \<longrightarrow> statusCode e = Some 404 \<and> statusCode e \<noteq> Some 403"
    using getUserById_error[of c i db] by auto
  then show ?thesis
    using getUserById_missing[of db i c] by blast
qed

theorem getUserById_not_found_witness:
  "(\<exists>u \<in> set (rows example_db). u_id u = ''b1'' \<and> u_companyId u \<noteq> ''A'')
   \<and> \<not> (\<exists>u \<in> set (rows example_db). u_id u = ''b1'' \<and> u_companyId u = ''A'')
   \<and> fst (getUserById ''A'' ''b1'' example_db) = Inl (AppError ''User not found'' 404 None)
   \<and> statusCode (AppError ''User not found'' 404 None) = Some 404"
  using getUserById_not_found[of example_db "''b1''" "''A''"]
  by (simp add: example_db_def user_o1_def user_u1_def user_b1_def)

section \<open>The authentication gate\<close>



section \<open>The authorization gate\<close>

text \<open>
  C6. \<^verbatim>\<open>requireRole(roles)\<close> passes the request on exactly when an identity is attached
  and its role is one of \<open>roles\<close>. Without an identity it raises the 401 error
  \<open>UNAUTHORIZED\<close>; with an identity whose role is not listed it raises the 403 error
  \<open>FORBIDDEN\<close>. Membership is all it tests: no role stands for another.
\<close>

theorem requireRole_membership:
  "((\<exists>req'. requireRole roles req = Inr req') \<longleftrightarrow> (\<exists>p. user req = Some p \<and> role p \<in> set roles))
   \<and> (\<forall>req'. requireRole roles req = Inr req' \<longrightarrow> req' = req)
   \<and> (user req = None \<longrightarrow>
        requireRole roles req = Inl (AppError ''Unauthorized'' 401 (Some UNAUTHORIZED)))
   \<and> (\<forall>p. user req = Some p \<and> role p \<notin> set roles \<longrightarrow>
        requireRole roles req
          = Inl (AppError ''Forbidden - Insufficient permissions'' 403 (Some FORBIDDEN)))"
  by (cases "user req") (auto simp: requireRole_def)

theorem requireRole_membership_witness:
  "requireRole [ADMIN]
      ((example_request ''GET'' None ''u1'')
         \<lparr>user := Some \<lparr>userId = ''o1'', companyId = ''A'', role = OWNER\<rparr>\<rparr>)
     = Inl (AppError ''Forbidden - Insufficient permissions'' 403 (Some FORBIDDEN))
   \<and> requireRole [ADMIN, OWNER] (example_request ''GET'' None ''u1'')
     = Inl (AppError ''Unauthorized'' 401 (Some UNAUTHORIZED))
   \<and> (\<exists>req'. requireRole [ADMIN, OWNER]
        ((example_request ''GET'' None ''u1'')
           \<lparr>user := Some \<lparr>userId = ''o1'', companyId = ''A'', role = OWNER\<rparr>\<rparr>) = Inr req')"
proof -
  let ?req = "(example_request ''GET'' None ''u1'')
                \<lparr>user := Some \<lparr>userId = ''o1'', companyId = ''A'', role = OWNER\<rparr>\<rparr>"
  have 1: "requireRole [ADMIN] ?req
             = Inl (AppError ''Forbidden - Insufficient permissions'' 403 (Some FORBIDDEN))"
    using requireRole_membership[of "[ADMIN]" ?req] by (simp add: example_request_def)
  have 2: "requireRole [ADMIN, OWNER] (example_request ''GET'' None ''u1'')
             = Inl (AppError ''Unauthorized'' 401 (Some UNAUTHORIZED))"
    using requireRole_membership[of "[ADMIN, OWNER]" "example_request ''GET'' None ''u1''"]
    by (simp add: example_request_def)
  have 3: "\<exists>req'. requireRole [ADMIN, OWNER] ?req = Inr req'"
    using requireRole_membership[of "[ADMIN, OWNER]" ?req] by (simp add: example_request_def)
  from 1 2 3 show ?thesis by blast
qed

section \<open>Listing users\<close>



section \<open>The cache advisory middleware\<close>



section \<open>Creating a user\<close>



section \<open>Owners\<close>

text \<open>
  C10. A role given to \<^verbatim>\<open>createUser\<close> or \<^verbatim>\<open>updateUser\<close> is \<open>ADMIN\<close> or \<open>USER\<close>:
  the row \<^verbatim>\<open>createUser\<close> adds is not an owner's, and a row that is an owner's after
  \<^verbatim>\<open>updateUser\<close> was that owner's before. So after any sequence of calls of the service,
  the owners of every company are among those it had before.
\<close>

theorem owners_never_enlarged:
  "owners c (performAll xs db) \<subseteq> owners c db
   \<and> (\<forall>r. toUserRole r = ADMIN \<or> toUserRole r = USER)
   \<and> (\<forall>u \<in> set (rows (snd (createUser gen d db))). u_role u = OWNER \<longrightarrow> u \<in> set (rows db))
   \<and> (\<forall>u \<in> set (rows (snd (updateUser cid i upd db))). u_role u = OWNER \<longrightarrow>
        (\<exists>u0 \<in> set (rows db). u_role u0 = OWNER \<and> u_id u0 = u_id u
                                \<and> u_companyId u0 = u_companyId u))"
proof -
  have seq: "owners c (performAll xs db) \<subseteq> owners c db"
    by (rule owners_performAll)
  have roles: "\<forall>r. toUserRole r = ADMIN \<or> toUserRole r = USER"
  proof
    fix r show "toUserRole r = ADMIN \<or> toUserRole r = USER" by (cases r) simp_all
  qed
  have cr: "\<forall>u \<in> set (rows (snd (createUser gen d db))). u_role u = OWNER \<longrightarrow> u \<in> set (rows db)"
    using created_role_not_OWNER[of d] by (auto simp: createUser_db)
  have up: "\<forall>u \<in> set (rows (snd (updateUser cid i upd db))). u_role u = OWNER \<longrightarrow>
        (\<exists>u0 \<in> set (rows db). u_role u0 = OWNER \<and> u_id u0 = u_id u
                                \<and> u_companyId u0 = u_companyId u)"
  proof
    fix u assume "u \<in> set (rows (snd (updateUser cid i upd db)))"
    then obtain u0 where u0: "u0 \<in> set (rows db)"
      and u: "u = (if u_id u0 = i \<and> u_companyId u0 = cid then applyUpdate upd u0 else u0)"
      by (auto simp: updateUser_db)
    show "u_role u = OWNER \<longrightarrow>
        (\<exists>u0 \<in> set (rows db). u_role u0 = OWNER \<and> u_id u0 = u_id u
                                \<and> u_companyId u0 = u_companyId u)"
    proof
      assume "u_role u = OWNER"
      with u have "u_role u0 = OWNER \<and> u_id u0 = u_id u \<and> u_companyId u0 = u_companyId u"
        by (auto dest: applyUpdate_OWNER split: if_splits)
      with u0 show "\<exists>u0 \<in> set (rows db). u_role u0 = OWNER \<and> u_id u0 = u_id u
                                \<and> u_companyId u0 = u_companyId u"
        by blast
    qed
  qed
  from seq roles cr up show ?thesis by blast
qed

theorem owners_never_enlarged_witness:
  "owners ''A''
     (performAll
        [CreateUser \<lparr>g_id = ''n1'', g_now = 7\<rparr>
           \<lparr>c_name = ''Bob'', c_email = ''bob@x.com'', c_password = ''StrongP@ss1'',
            c_role = Some Role_ADMIN, c_companyId = ''A''\<rparr>,
         UpdateUser ''A'' ''u1'' \<lparr>d_name = None, d_email = None, d_role = Some Role_ADMIN\<rparr>,
         DeleteUser ''A'' ''n1'']
        example_db) \<subseteq> {''o1''}
   \<and> owners ''A'' example_db = {''o1''}"
proof -
  have own: "owners ''A'' example_db = {''o1''}"
    by (simp add: owners_def example_db_def user_o1_def user_u1_def user_b1_def)
  show ?thesis
    using owners_never_enlarged[of "''A''"
        "[CreateUser \<lparr>g_id = ''n1'', g_now = 7\<rparr>
           \<lparr>c_name = ''Bob'', c_email = ''bob@x.com'', c_password = ''StrongP@ss1'',
            c_role = Some Role_ADMIN, c_companyId = ''A''\<rparr>,
         UpdateUser ''A'' ''u1'' \<lparr>d_name = None, d_email = None, d_role = Some Role_ADMIN\<rparr>,
         DeleteUser ''A'' ''n1'']" example_db]
    by (simp add: own)
qed

end
